theory Spec2Isabelle
  imports Complex_Main "HOL-Library.Word" "HOL-Library.Sublist"
begin

section \<open>Exceptions and outcomes of the C++ code\<close>

text \<open>
  The exception classes that reach the two handlers of \<^verbatim>\<open>main\<close>
  (\<^verbatim>\<open>Examples/CppClient/main.cpp\<close>). All of them derive from
  \<^verbatim>\<open>std::exception\<close>; the string is what \<^verbatim>\<open>e.what()\<close> returns.
  \<^item> \<open>TimeoutException\<close>: \<^verbatim>\<open>carla::client::TimeoutException\<close>;
  \<^item> \<open>RuntimeError\<close>: \<^verbatim>\<open>std::runtime_error\<close>, thrown by the macro
    \<^verbatim>\<open>EXPECT_TRUE(pred)\<close> with the text of \<^verbatim>\<open>pred\<close> as its message;
  \<^item> \<open>InvalidArgument\<close>, \<open>OutOfRange\<close>: thrown by \<^verbatim>\<open>std::stoi\<close>;
  \<^item> \<open>StdException\<close>: any other class derived from \<^verbatim>\<open>std::exception\<close>.
\<close>

datatype exn =
    TimeoutException string
  | RuntimeError string
  | InvalidArgument string
  | OutOfRange string
  | StdException string

fun what :: "exn \<Rightarrow> string" where
  "what (TimeoutException m) = m"
| "what (RuntimeError m) = m"
| "what (InvalidArgument m) = m"
| "what (OutOfRange m) = m"
| "what (StdException m) = m"

text \<open>
  A C++ call returns a value, throws, or has undefined behaviour (an unchecked read
  outside an array).
\<close>

datatype 'a outcome = Returns 'a | Throws exn | Undefined

section \<open>RandomChoice\<close>

text \<open>
  \<^verbatim>\<open>
  template <typename RangeT, typename RNG>
  static auto &RandomChoice(const RangeT &range, RNG &&generator) {
      EXPECT_TRUE(range.size() > 0u);
      std::uniform_int_distribution<size_t> dist{0u, range.size() - 1u};
      return range[dist(std::forward<RNG>(generator))];
  }
  \<close>
  The range is a list. \<^verbatim>\<open>std::uniform_int_distribution\<close> belongs to the C++
  standard library: it is the parameter \<open>uniform_int_distribution a b g\<close>, the number
  drawn from the generator state \<open>g\<close> for the bounds \<open>a\<close> and \<open>b\<close>, with the
  generator's next state. \<^verbatim>\<open>range.size() - 1u\<close> is computed only after the check,
  so the unsigned subtraction does not wrap and \<open>nat\<close> subtraction is exact.
  \<^verbatim>\<open>range[i]\<close> is unchecked: outside the range it is undefined behaviour.
\<close>

definition RandomChoice ::
  "(nat \<Rightarrow> nat \<Rightarrow> 'g \<Rightarrow> nat \<times> 'g) \<Rightarrow> 'a list \<Rightarrow> 'g \<Rightarrow> 'a outcome \<times> 'g" where
  "RandomChoice uniform_int_distribution range' generator =
     (if \<not> (length range' > 0) then (Throws (RuntimeError ''range.size() > 0u''), generator)
      else
        let (i, generator') = uniform_int_distribution 0 (length range' - 1) generator
        in (if i < length range' then Returns (range' ! i) else Undefined, generator'))"

text \<open>
  What the C++ standard promises of \<^verbatim>\<open>uniform_int_distribution<size_t>{a, b}\<close>
  (for \<open>a \<le> b\<close>): every number drawn lies in the closed interval from \<open>a\<close> to \<open>b\<close>.
\<close>

definition distribution_contract :: "(nat \<Rightarrow> nat \<Rightarrow> 'g \<Rightarrow> nat \<times> 'g) \<Rightarrow> bool" where
  "distribution_contract draw =
     (\<forall>a b g. a \<le> b \<longrightarrow> a \<le> fst (draw a b g) \<and> fst (draw a b g) \<le> b)"

section \<open>ParseArguments\<close>

subsection \<open>std::stoi\<close>

text \<open>
  \<^verbatim>\<open>std::stoi(str)\<close> belongs to the C++ standard library. It is modelled from its
  documented behaviour (base 10, through \<^verbatim>\<open>strtol\<close>): leading white space is
  skipped, one optional sign is read, then the longest run of decimal digits; what follows
  the digits is ignored. With no digit it throws \<^verbatim>\<open>std::invalid_argument\<close>,
  with a value outside the range of \<^verbatim>\<open>int\<close> (32 bits)
  \<^verbatim>\<open>std::out_of_range\<close>.
\<close>

definition isspace :: "char \<Rightarrow> bool" where
  "isspace c = (c \<in> set [CHR '' '', CHR 0x09, CHR 0x0A, CHR 0x0B, CHR 0x0C, CHR 0x0D])"

definition isdigit :: "char \<Rightarrow> bool" where
  "isdigit c = (48 \<le> (of_char c :: nat) \<and> (of_char c :: nat) \<le> 57)"

fun strtol_sign :: "string \<Rightarrow> bool \<times> string" where
  "strtol_sign [] = (False, [])"
| "strtol_sign (c # cs) =
     (if c = CHR ''-'' then (True, cs)
      else if c = CHR ''+'' then (False, cs)
      else (False, c # cs))"

definition decimal_value :: "string \<Rightarrow> nat" where
  "decimal_value ds = foldl (\<lambda>acc c. 10 * acc + (of_char c - 48)) 0 ds"

definition strtol_value :: "string \<Rightarrow> int option" where
  "strtol_value str =
     (let (negative, rest) = strtol_sign (dropWhile isspace str);
          digits = takeWhile isdigit rest
      in if digits = [] then None
         else Some (if negative then - int (decimal_value digits)
                    else int (decimal_value digits)))"

definition INT_MIN :: int where
  "INT_MIN = - (2 ^ 31)"

definition INT_MAX :: int where
  "INT_MAX = 2 ^ 31 - 1"

definition stoi :: "string \<Rightarrow> exn + int" where
  "stoi str =
     (case strtol_value str of
        None \<Rightarrow> Inl (InvalidArgument ''stoi'')
      | Some v \<Rightarrow>
          if v < INT_MIN \<or> INT_MAX < v then Inl (OutOfRange ''stoi'') else Inr v)"

subsection \<open>The function\<close>

text \<open>
  \<^verbatim>\<open>
  static auto ParseArguments(int argc, const char *argv[]) {
      EXPECT_TRUE((argc == 1u) || (argc == 3u));
      using ResultType = std::tuple<std::string, uint16_t>;
      return argc == 3u ?
             ResultType{argv[1u], std::stoi(argv[2u])} :
             ResultType{"localhost", 2000u};
  }
  \<close>
  \<open>argc\<close> is a 32-bit \<^verbatim>\<open>int\<close>; comparing it with \<^verbatim>\<open>1u\<close> converts it to
  \<^verbatim>\<open>unsigned\<close>, which keeps its 32 bits, so the comparison is equality of words.
  \<open>argv\<close> is the list of the argument strings (\<open>argv ! 0\<close> the program name); reading
  \<^verbatim>\<open>argv[1u]\<close> or \<^verbatim>\<open>argv[2u]\<close> beyond it is undefined behaviour. The
  \<^verbatim>\<open>int\<close> that \<^verbatim>\<open>std::stoi\<close> returns initialises a \<^verbatim>\<open>uint16_t\<close>:
  the conversion keeps the low 16 bits (\<open>word_of_int\<close>).
\<close>

definition ParseArguments :: "32 word \<Rightarrow> string list \<Rightarrow> (string \<times> 16 word) outcome" where
  "ParseArguments argc argv =
     (if \<not> (argc = 1 \<or> argc = 3) then Throws (RuntimeError ''(argc == 1u) || (argc == 3u)'')
      else if argc = 3 then
        (if length argv \<le> 2 then Undefined
         else case stoi (argv ! 2) of
                Inl e \<Rightarrow> Throws e
              | Inr port \<Rightarrow> Returns (argv ! 1, word_of_int port))
      else Returns (''localhost'', 2000))"

section \<open>The driver program\<close>

subsection \<open>Standard output and sequencing\<close>

text \<open>
  A statement of \<^verbatim>\<open>main\<close> runs on the text written to standard output so far and
  gives an outcome with the text written after it. \<open>io_bind\<close> is the semicolon:
  the second statement runs only when the first returns; an exception or undefined
  behaviour ends the sequence, and what was written before stays written.
\<close>

type_synonym 'a io = "string \<Rightarrow> 'a outcome \<times> string"

definition io_return :: "'a \<Rightarrow> 'a io" where
  "io_return v = (\<lambda>out. (Returns v, out))"

definition io_outcome :: "'a outcome \<Rightarrow> 'a io" where
  "io_outcome r = (\<lambda>out. (r, out))"

definition io_bind :: "'a io \<Rightarrow> ('a \<Rightarrow> 'b io) \<Rightarrow> 'b io" where
  "io_bind m f =
     (\<lambda>out. case m out of
        (Returns v, out') \<Rightarrow> f v out'
      | (Throws e, out') \<Rightarrow> (Throws e, out')
      | (Undefined, out') \<Rightarrow> (Undefined, out'))"

definition cout :: "string \<Rightarrow> unit io" where
  "cout str = (\<lambda>out. (Returns (), out @ str))"

text \<open>A call into the client library: it returns a value or throws.\<close>

definition call :: "exn + 'a \<Rightarrow> 'a io" where
  "call r = (case r of Inl e \<Rightarrow> io_outcome (Throws e) | Inr v \<Rightarrow> io_return v)"

text \<open>\<^verbatim>\<open>RandomChoice(range, rng)\<close> inside \<^verbatim>\<open>main\<close>: the element with the generator's next state.\<close>

definition pick ::
  "(nat \<Rightarrow> nat \<Rightarrow> 'g \<Rightarrow> nat \<times> 'g) \<Rightarrow> 'a list \<Rightarrow> 'g \<Rightarrow> ('a \<times> 'g) io" where
  "pick draw range' rng =
     (case RandomChoice draw range' rng of
        (Returns v, rng') \<Rightarrow> io_return (v, rng')
      | (Throws e, rng') \<Rightarrow> io_outcome (Throws e)
      | (Undefined, rng') \<Rightarrow> io_outcome Undefined)"

subsection \<open>The client library\<close>

text \<open>
  \<^verbatim>\<open>carla::geom::Transform\<close>: a location (x, y, z) and a rotation (pitch, yaw, roll).
  The C++ fields are \<^verbatim>\<open>float\<close>; they are real numbers here, so rounding is not
  modelled.
\<close>

datatype Location = Location real real real

datatype Rotation = Rotation real real real

datatype Transform = Transform Location Rotation

text \<open>
  The calls \<^verbatim>\<open>main\<close> makes into the client library (\<^verbatim>\<open>carla::client\<close>) and the
  standard library's random numbers are parameters: each field is one call, giving the
  value it returns or the exception it throws. The handles (client, world, blueprint
  library, blueprint, attribute, map, actor, spectator) and the generator state are type
  parameters.
\<close>

record ('client, 'world, 'library, 'blueprint, 'attribute, 'map, 'actor, 'spectator, 'g) client_library =
  random_device :: "exn + 'g"
  uniform_int_distribution :: "nat \<Rightarrow> nat \<Rightarrow> 'g \<Rightarrow> nat \<times> 'g"
  Client :: "string \<Rightarrow> 16 word \<Rightarrow> exn + 'client"
  SetTimeout :: "'client \<Rightarrow> nat \<Rightarrow> exn + unit"
  GetClientVersion :: "'client \<Rightarrow> exn + string"
  GetServerVersion :: "'client \<Rightarrow> exn + string"
  GetAvailableMaps :: "'client \<Rightarrow> exn + string list"
  LoadWorld :: "'client \<Rightarrow> string \<Rightarrow> exn + 'world"
  GetBlueprintLibrary :: "'world \<Rightarrow> exn + 'library"
  Filter :: "'library \<Rightarrow> string \<Rightarrow> exn + 'blueprint list"
  ContainsAttribute :: "'blueprint \<Rightarrow> string \<Rightarrow> bool"
  GetAttribute :: "'blueprint \<Rightarrow> string \<Rightarrow> exn + 'attribute"
  GetRecommendedValues :: "'attribute \<Rightarrow> exn + string list"
  SetAttribute :: "'blueprint \<Rightarrow> string \<Rightarrow> string \<Rightarrow> exn + 'blueprint"
  GetMap :: "'world \<Rightarrow> exn + 'map"
  GetRecommendedSpawnPoints :: "'map \<Rightarrow> exn + Transform list"
  SpawnActor :: "'world \<Rightarrow> 'blueprint \<Rightarrow> Transform \<Rightarrow> exn + 'actor"
  GetDisplayId :: "'actor \<Rightarrow> string"
  ApplyControl :: "'actor \<Rightarrow> real \<Rightarrow> exn + unit"
  GetSpectator :: "'world \<Rightarrow> exn + 'spectator"
  GetForwardVector :: "Transform \<Rightarrow> real \<times> real \<times> real"
  SetTransform :: "'spectator \<Rightarrow> Transform \<Rightarrow> exn + unit"
  Destroy :: "'actor \<Rightarrow> exn + bool"

text \<open>
  \<^verbatim>\<open>
  transform.location += 32.0f * transform.GetForwardVector();
  transform.location.z += 2.0f;
  transform.rotation.yaw += 180.0f;
  transform.rotation.pitch = -15.0f;
  \<close>
\<close>

fun spectator_transform :: "(Transform \<Rightarrow> real \<times> real \<times> real) \<Rightarrow> Transform \<Rightarrow> Transform" where
  "spectator_transform forward (Transform (Location x y z) (Rotation pitch yaw roll)) =
     (case forward (Transform (Location x y z) (Rotation pitch yaw roll)) of
        (fx, fy, fz) \<Rightarrow>
          Transform (Location (x + 32 * fx) (y + 32 * fy) (z + 32 * fz + 2))
                    (Rotation (- 15) (yaw + 180) roll))"

subsection \<open>main\<close>

text \<open>
  The body of the \<^verbatim>\<open>try\<close> block, statement by statement. A line
  \<^verbatim>\<open>std::cout << "text" << f() << '\n'\<close> writes the text, calls \<open>f\<close>, then writes
  its result (the order C++17 fixes; the exit code and what the handlers write do not
  depend on it). \<^verbatim>\<open>control.throttle = 1.0f\<close> is the argument \<open>1\<close> of
  \<open>ApplyControl\<close>; \<^verbatim>\<open>40s\<close> is the argument \<open>40\<close> of \<open>SetTimeout\<close>;
  \<^verbatim>\<open>std::endl\<close> writes a line feed.
\<close>

definition main_body ::
  "('client, 'world, 'library, 'blueprint, 'attribute, 'map, 'actor, 'spectator, 'g) client_library
     \<Rightarrow> 32 word \<Rightarrow> string list \<Rightarrow> unit io" where
  "main_body lib argc argv =
     io_bind (io_outcome (ParseArguments argc argv)) (\<lambda>(host, port).
     io_bind (call (random_device lib)) (\<lambda>rng.
     io_bind (call (Client lib host port)) (\<lambda>client.
     io_bind (call (SetTimeout lib client 40)) (\<lambda>_.
     io_bind (cout ''Client API version : '') (\<lambda>_.
     io_bind (call (GetClientVersion lib client)) (\<lambda>client_version.
     io_bind (cout (client_version @ [CHR 0x0A])) (\<lambda>_.
     io_bind (cout ''Server API version : '') (\<lambda>_.
     io_bind (call (GetServerVersion lib client)) (\<lambda>server_version.
     io_bind (cout (server_version @ [CHR 0x0A])) (\<lambda>_.
     io_bind (call (GetAvailableMaps lib client)) (\<lambda>available_maps.
     io_bind (pick (uniform_int_distribution lib) available_maps rng) (\<lambda>(town_name, rng).
     io_bind (cout (''Loading world: '' @ town_name @ [CHR 0x0A])) (\<lambda>_.
     io_bind (call (LoadWorld lib client town_name)) (\<lambda>world.
     io_bind (call (GetBlueprintLibrary lib world)) (\<lambda>blueprint_library.
     io_bind (call (Filter lib blueprint_library ''vehicle'')) (\<lambda>vehicles.
     io_bind (pick (uniform_int_distribution lib) vehicles rng) (\<lambda>(blueprint, rng).
     io_bind
       (if ContainsAttribute lib blueprint ''color'' then
          io_bind (call (GetAttribute lib blueprint ''color'')) (\<lambda>attribute.
          io_bind (call (GetRecommendedValues lib attribute)) (\<lambda>recommended.
          io_bind (pick (uniform_int_distribution lib) recommended rng) (\<lambda>(color, rng).
          io_bind (call (SetAttribute lib blueprint ''color'' color)) (\<lambda>blueprint.
          io_return (blueprint, rng)))))
        else io_return (blueprint, rng)) (\<lambda>(blueprint, rng).
     io_bind (call (GetMap lib world)) (\<lambda>map'.
     io_bind (call (GetRecommendedSpawnPoints lib map')) (\<lambda>spawn_points.
     io_bind (pick (uniform_int_distribution lib) spawn_points rng) (\<lambda>(transform, rng).
     io_bind (call (SpawnActor lib world blueprint transform)) (\<lambda>actor.
     io_bind (cout ''Spawned '') (\<lambda>_.
     io_bind (cout (GetDisplayId lib actor @ [CHR 0x0A])) (\<lambda>_.
     io_bind (call (ApplyControl lib actor 1)) (\<lambda>_.
     io_bind (call (GetSpectator lib world)) (\<lambda>spectator.
     io_bind (call (SetTransform lib spectator
                      (spectator_transform (GetForwardVector lib) transform))) (\<lambda>_.
     io_bind (call (Destroy lib actor)) (\<lambda>_.
     cout (''Actors destroyed.'' @ [CHR 0x0A])))))))))))))))))))))))))))))"

text \<open>
  \<^verbatim>\<open>
  int main(int argc, const char *argv[]) {
      try { ... }
      catch (const cc::TimeoutException &e) {
          std::cout << '\n' << e.what() << std::endl;
          return 1;
      } catch (const std::exception &e) {
          std::cout << "\nException: " << e.what() << std::endl;
          return 2;
      }
  }
  \<close>
  The result is the text on standard output with the exit code of the process. Falling
  off the end of \<^verbatim>\<open>main\<close> returns 0. After undefined behaviour there is no result.
\<close>

definition main ::
  "('client, 'world, 'library, 'blueprint, 'attribute, 'map, 'actor, 'spectator, 'g) client_library
     \<Rightarrow> 32 word \<Rightarrow> string list \<Rightarrow> (string \<times> int) option" where
  "main lib argc argv =
     (case main_body lib argc argv [] of
        (Returns _, out) \<Rightarrow> Some (out, 0)
      | (Throws e, out) \<Rightarrow>
          (case e of
             TimeoutException _ \<Rightarrow> Some (out @ [CHR 0x0A] @ what e @ [CHR 0x0A], 1)
           | _ \<Rightarrow> Some (out @ [CHR 0x0A] @ ''Exception: '' @ what e @ [CHR 0x0A], 2))
      | (Undefined, out) \<Rightarrow> None)"

section \<open>Locating and loading the OpenDRIVE file\<close>

subsection \<open>Engine strings\<close>

text \<open>
  \<^verbatim>\<open>FString\<close> belongs to the engine. Its methods \<^verbatim>\<open>StartsWith\<close>,
  \<^verbatim>\<open>EndsWith\<close>, \<^verbatim>\<open>RemoveFromStart\<close> and \<^verbatim>\<open>RemoveFromEnd\<close> take a second
  argument, \<^verbatim>\<open>ESearchCase::Type SearchCase = ESearchCase::IgnoreCase\<close>, which the
  code of \<^verbatim>\<open>OpenDrive.cpp\<close> never gives: every comparison it makes ignores the case of
  letters. An empty prefix or suffix never matches. \<open>ToLower\<close> folds the letters A to Z.
\<close>

definition ToLower :: "char \<Rightarrow> char" where
  "ToLower c =
     (case map_of (zip ''ABCDEFGHIJKLMNOPQRSTUVWXYZ'' ''abcdefghijklmnopqrstuvwxyz'') c of
        None \<Rightarrow> c
      | Some lower \<Rightarrow> lower)"

definition StartsWith :: "string \<Rightarrow> string \<Rightarrow> bool" where
  "StartsWith str InPrefix =
     (InPrefix \<noteq> [] \<and> length InPrefix \<le> length str \<and>
      map ToLower (take (length InPrefix) str) = map ToLower InPrefix)"

definition EndsWith :: "string \<Rightarrow> string \<Rightarrow> bool" where
  "EndsWith str InSuffix =
     (InSuffix \<noteq> [] \<and> length InSuffix \<le> length str \<and>
      map ToLower (drop (length str - length InSuffix) str) = map ToLower InSuffix)"

definition RemoveFromStart :: "string \<Rightarrow> string \<Rightarrow> string" where
  "RemoveFromStart str InPrefix =
     (if StartsWith str InPrefix then drop (length InPrefix) str else str)"

definition RemoveFromEnd :: "string \<Rightarrow> string \<Rightarrow> string" where
  "RemoveFromEnd str InSuffix =
     (if EndsWith str InSuffix then take (length str - length InSuffix) str else str)"

subsection \<open>The engine's file system and log\<close>

text \<open>
  The engine calls of \<^verbatim>\<open>OpenDrive.cpp\<close> are parameters:
  \<^item> \<open>ProjectContentDir\<close>: \<^verbatim>\<open>FPaths::ProjectContentDir()\<close>;
  \<^item> \<open>FileExists path\<close>: \<^verbatim>\<open>IFileManager::Get().FileExists(path)\<close>;
  \<^item> \<open>FindFilesRecursive FileNames StartDirectory Filename Files Directories bClearFileNames\<close>:
    the array \<open>FileNames\<close> after the call of \<^verbatim>\<open>IFileManager::FindFilesRecursive\<close>;
  \<^item> \<open>LoadFileToString Result Filename\<close>: whether
    \<^verbatim>\<open>FFileHelper::LoadFileToString(Result, Filename)\<close> succeeded, and \<open>Result\<close>
    after the call.
\<close>

record engine =
  ProjectContentDir :: string
  FileExists :: "string \<Rightarrow> bool"
  FindFilesRecursive :: "string list \<Rightarrow> string \<Rightarrow> string \<Rightarrow> bool \<Rightarrow> bool \<Rightarrow> bool \<Rightarrow> string list"
  LoadFileToString :: "string \<Rightarrow> string \<Rightarrow> bool \<times> string"

text \<open>
  \<^verbatim>\<open>UE_LOG(LogTemp, Verbosity, Format, Argument)\<close> appends one line to the log: its
  verbosity and its text, the argument between single quotes.
\<close>

datatype verbosity = Error | Log

type_synonym log_line = "verbosity \<times> string"

definition quoted :: "string \<Rightarrow> string" where
  "quoted str = [CHR 0x27] @ str @ [CHR 0x27]"

subsection \<open>FindPathToXODRFile\<close>

definition PIEPrefix :: string where
  "PIEPrefix = ''UEDPIE_0_''"

text \<open>
  \<^verbatim>\<open>
  #if WITH_EDITOR
      {
        FString CorrectedMapName = MapName;
        constexpr auto PIEPrefix = TEXT("UEDPIE_0_");
        CorrectedMapName.RemoveFromStart(PIEPrefix);
        MapName = CorrectedMapName;
      }
  #endif // WITH_EDITOR
  \<close>
  The block stands at the start of \<^verbatim>\<open>FindPathToXODRFile\<close>, \<^verbatim>\<open>GetXODR\<close> and
  \<^verbatim>\<open>GetXODRByPath\<close>. The first argument says whether the build is an editor build.
\<close>

definition CorrectedMapName :: "bool \<Rightarrow> string \<Rightarrow> string" where
  "CorrectedMapName WITH_EDITOR MapName =
     (if WITH_EDITOR then RemoveFromStart MapName PIEPrefix else MapName)"

text \<open>
  \<^verbatim>\<open>
  MapName += TEXT(".xodr");
  const FString DefaultFilePath =
      FPaths::ProjectContentDir() + TEXT("Carla/Maps/OpenDrive/") + MapName;
  auto &FileManager = IFileManager::Get();
  if (FileManager.FileExists(*DefaultFilePath)) { return DefaultFilePath; }
  TArray<FString> FilesFound;
  FileManager.FindFilesRecursive(
      FilesFound, *FPaths::ProjectContentDir(), *MapName, true, false, false);
  return FilesFound.Num() > 0 ? FilesFound[0u] : FString{};
  \<close>
\<close>

definition DefaultFilePath :: "engine \<Rightarrow> string \<Rightarrow> string" where
  "DefaultFilePath eng FileName = ProjectContentDir eng @ ''Carla/Maps/OpenDrive/'' @ FileName"

definition FindPathToXODRFile :: "bool \<Rightarrow> engine \<Rightarrow> string \<Rightarrow> string" where
  "FindPathToXODRFile WITH_EDITOR eng InMapName =
     (let MapName = CorrectedMapName WITH_EDITOR InMapName @ ''.xodr''
      in if FileExists eng (DefaultFilePath eng MapName) then DefaultFilePath eng MapName
         else
           let FilesFound =
                 FindFilesRecursive eng [] (ProjectContentDir eng) MapName True False False
           in if length FilesFound > 0 then FilesFound ! 0 else [])"

subsection \<open>LoadXODR\<close>

text \<open>
  \<^verbatim>\<open>
  const auto FilePath = FindPathToXODRFile(MapName);
  FString Content;
  if (FilePath.IsEmpty())
    { UE_LOG(LogTemp, Error, TEXT("Failed to find OpenDrive file for map '%s'"), *MapName); }
  else if (FFileHelper::LoadFileToString(Content, *FilePath))
    { UE_LOG(LogTemp, Log, TEXT("Loaded OpenDrive file '%s'"), *FilePath); }
  else
    { UE_LOG(LogTemp, Error, TEXT("Failed to load OpenDrive file '%s'"), *FilePath); }
  return Content;
  \<close>
  The result is the content returned with the lines logged.
\<close>

definition LoadXODR :: "bool \<Rightarrow> engine \<Rightarrow> string \<Rightarrow> string \<times> log_line list" where
  "LoadXODR WITH_EDITOR eng MapName =
     (let FilePath = FindPathToXODRFile WITH_EDITOR eng MapName
      in if FilePath = [] then
           ([], [(Error, ''Failed to find OpenDrive file for map '' @ quoted MapName)])
         else
           case LoadFileToString eng [] FilePath of
             (True, Content) \<Rightarrow> (Content, [(Log, ''Loaded OpenDrive file '' @ quoted FilePath)])
           | (False, Content) \<Rightarrow>
               (Content, [(Error, ''Failed to load OpenDrive file '' @ quoted FilePath)]))"

subsection \<open>GetXODRByPath\<close>

text \<open>
  \<^verbatim>\<open>
  FString FileName = XODRPath.EndsWith(MapName) ? "*" : MapName;
  FString FolderDir = XODRPath;
  FolderDir.RemoveFromEnd(MapName + ".xodr");
  TArray<FString> Files;
  IFileManager::Get().FindFilesRecursive(
      Files, *FolderDir, *FString(FileName + ".xodr"), true, false, false);
  FString Content;
  if (!Files.Num())
    { UE_LOG(LogTemp, Error, TEXT("Failed to find OpenDrive file for map '%s'"), *MapName); }
  else if (FFileHelper::LoadFileToString(Content, *Files[0]))
    { UE_LOG(LogTemp, Log, TEXT("Loaded OpenDrive file '%s'"), *Files[0]); }
  return Content;
  \<close>
  after the editor block. There is no final \<^verbatim>\<open>else\<close>: a file that is found and
  does not load logs nothing.
\<close>

definition GetXODRByPath :: "bool \<Rightarrow> engine \<Rightarrow> string \<Rightarrow> string \<Rightarrow> string \<times> log_line list" where
  "GetXODRByPath WITH_EDITOR eng XODRPath InMapName =
     (let MapName = CorrectedMapName WITH_EDITOR InMapName;
          FileName = (if EndsWith XODRPath MapName then ''*'' else MapName);
          FolderDir = RemoveFromEnd XODRPath (MapName @ ''.xodr'');
          Files = FindFilesRecursive eng [] FolderDir (FileName @ ''.xodr'') True False False
      in if length Files = 0 then
           ([], [(Error, ''Failed to find OpenDrive file for map '' @ quoted MapName)])
         else
           case LoadFileToString eng [] (Files ! 0) of
             (True, Content) \<Rightarrow> (Content, [(Log, ''Loaded OpenDrive file '' @ quoted (Files ! 0))])
           | (False, Content) \<Rightarrow> (Content, []))"

subsection \<open>LoadOpenDriveMap\<close>

text \<open>
  \<^verbatim>\<open>
  UOpenDriveMap *Map = nullptr;
  auto XODRContent = LoadXODR(MapName);
  if (!XODRContent.IsEmpty())
  {
    Map = NewObject<UOpenDriveMap>();
    Map->Load(XODRContent);
  }
  return Map;
  \<close>
  \<^verbatim>\<open>NewObject<UOpenDriveMap>()\<close> and \<^verbatim>\<open>UOpenDriveMap::Load\<close> are parameters:
  \<open>NewObject\<close> is the fresh map object, \<open>Load m content\<close> the object \<open>m\<close> after
  \<^verbatim>\<open>m->Load(content)\<close>. A pointer is an option, \<^verbatim>\<open>nullptr\<close> is \<open>None\<close>.
\<close>

definition LoadOpenDriveMap ::
  "bool \<Rightarrow> engine \<Rightarrow> 'm \<Rightarrow> ('m \<Rightarrow> string \<Rightarrow> 'm) \<Rightarrow> string \<Rightarrow> 'm option \<times> log_line list" where
  "LoadOpenDriveMap WITH_EDITOR eng NewObject Load MapName =
     (case LoadXODR WITH_EDITOR eng MapName of
        (XODRContent, logged) \<Rightarrow>
          if XODRContent \<noteq> [] then (Some (Load NewObject XODRContent), logged)
          else (None, logged))"

section \<open>Example inputs\<close>

text \<open>
  A distribution that keeps the standard's promise: the generator state \<open>g\<close> reduced
  into the interval, and the next state.
\<close>

definition example_distribution :: "nat \<Rightarrow> nat \<Rightarrow> nat \<Rightarrow> nat \<times> nat" where
  "example_distribution a b g = (a + g mod (b - a + 1), Suc g)"

text \<open>
  A simulator that answers every call; \<open>connection\<close> is what connecting to it does.
  Blueprints and actors are their names; the other handles carry nothing.
\<close>

definition scripted_library ::
  "(exn + unit) \<Rightarrow> (unit, unit, unit, string, unit, unit, string, unit, nat) client_library" where
  "scripted_library connection =
     \<lparr>random_device = Inr 0,
      uniform_int_distribution = example_distribution,
      Client = (\<lambda>host port. connection),
      SetTimeout = (\<lambda>client seconds. Inr ()),
      GetClientVersion = (\<lambda>client. Inr ''0.9.15''),
      GetServerVersion = (\<lambda>client. Inr ''0.9.15''),
      GetAvailableMaps = (\<lambda>client. Inr [''Town01'', ''Town02'']),
      LoadWorld = (\<lambda>client town. Inr ()),
      GetBlueprintLibrary = (\<lambda>world. Inr ()),
      Filter = (\<lambda>library pattern. Inr [''vehicle.audi.tt'']),
      ContainsAttribute = (\<lambda>blueprint attribute. True),
      GetAttribute = (\<lambda>blueprint attribute. Inr ()),
      GetRecommendedValues = (\<lambda>attribute. Inr [''red'', ''blue'']),
      SetAttribute = (\<lambda>blueprint attribute v. Inr blueprint),
      GetMap = (\<lambda>world. Inr ()),
      GetRecommendedSpawnPoints = (\<lambda>m. Inr [Transform (Location 0 0 0) (Rotation 0 0 0)]),
      SpawnActor = (\<lambda>world blueprint transform. Inr blueprint),
      GetDisplayId = (\<lambda>actor. actor),
      ApplyControl = (\<lambda>actor throttle. Inr ()),
      GetSpectator = (\<lambda>world. Inr ()),
      GetForwardVector = (\<lambda>transform. (1, 0, 0)),
      SetTransform = (\<lambda>spectator transform. Inr ()),
      Destroy = (\<lambda>actor. Inr True)\<rparr>"

text \<open>
  An engine whose content directory is \<^verbatim>\<open>/Content/\<close>: \<open>existing\<close> are the paths
  \<open>FileExists\<close> accepts, \<open>search dir name\<close> the files a recursive search finds, and
  \<open>contents path\<close> the text of a file that loads (\<open>None\<close>: the load fails and leaves
  the result as it was).
\<close>

definition example_engine ::
  "string list \<Rightarrow> (string \<Rightarrow> string \<Rightarrow> string list) \<Rightarrow> (string \<Rightarrow> string option) \<Rightarrow> engine" where
  "example_engine existing search contents =
     \<lparr>ProjectContentDir = ''/Content/'',
      FileExists = (\<lambda>path. path \<in> set existing),
      FindFilesRecursive =
        (\<lambda>FileNames StartDirectory Filename Files Directories bClearFileNames.
           (if bClearFileNames then [] else FileNames) @ search StartDirectory Filename),
      LoadFileToString =
        (\<lambda>Result Filename.
           case contents Filename of None \<Rightarrow> (False, Result) | Some content \<Rightarrow> (True, content))\<rparr>"

section \<open>Properties of the driver program\<close>

subsection \<open>Evaluating the examples\<close>

lemmas io_defs = io_bind_def io_return_def io_outcome_def cout_def call_def pick_def

lemmas stoi_defs =
  stoi_def strtol_value_def isspace_def isdigit_def decimal_value_def INT_MIN_def INT_MAX_def

lemma example_distribution_contract: "distribution_contract example_distribution"
proof -
  have "a + g mod (b - a + 1) \<le> b" if "a \<le> b" for a b g :: nat
  proof -
    have "g mod (b - a + 1) < b - a + 1" by simp
    with that show ?thesis by linarith
  qed
  then show ?thesis
    by (simp add: distribution_contract_def example_distribution_def)
qed

lemma main_body_scripted_success:
  "main_body (scripted_library (Inr ())) 1 [''client''] [] =
     (Returns (),
      ''Client API version : 0.9.15'' @ [CHR 0x0A] @
      ''Server API version : 0.9.15'' @ [CHR 0x0A] @
      ''Loading world: Town01'' @ [CHR 0x0A] @
      ''Spawned vehicle.audi.tt'' @ [CHR 0x0A] @
      ''Actors destroyed.'' @ [CHR 0x0A])"
  by (simp add: main_body_def scripted_library_def example_distribution_def
      ParseArguments_def io_defs RandomChoice_def)

lemma main_body_scripted_timeout:
  "main_body (scripted_library (Inl (TimeoutException ''time-out''))) 1 [''client''] [] =
     (Throws (TimeoutException ''time-out''), [])"
  by (simp add: main_body_def scripted_library_def ParseArguments_def io_defs)

lemma main_body_scripted_arguments:
  "main_body (scripted_library (Inr ())) 2 [''client'', ''localhost''] [] =
     (Throws (RuntimeError ''(argc == 1u) || (argc == 3u)''), [])"
  by (simp add: main_body_def scripted_library_def ParseArguments_def io_defs)

subsection \<open>Exit codes\<close>

text \<open>
  C1. The exit code of the driver program is 0 when the body of \<^verbatim>\<open>main\<close> returns, 1
  when the exception caught is a \<open>TimeoutException\<close>, and 2 when any other exception
  is caught; in both failure cases the message of the exception is written to standard
  output, after what the body had written: a line feed, the message (after the text
  \<^verbatim>\<open>Exception: \<close> in the second case) and a line feed.
\<close>

theorem main_exit_code:
  "(\<forall>out. main_body lib argc argv [] = (Returns (), out) \<longrightarrow>
      main lib argc argv = Some (out, 0)) \<and>
   (\<forall>out m. main_body lib argc argv [] = (Throws (TimeoutException m), out) \<longrightarrow>
      main lib argc argv = Some (out @ [CHR 0x0A] @ m @ [CHR 0x0A], 1)) \<and>
   (\<forall>out e. main_body lib argc argv [] = (Throws e, out) \<and> (\<forall>m. e \<noteq> TimeoutException m) \<longrightarrow>
      main lib argc argv =
        Some (out @ [CHR 0x0A] @ ''Exception: '' @ what e @ [CHR 0x0A], 2))"
  by (auto simp: main_def split: exn.splits)

theorem main_exit_code_witness:
  "main (scripted_library (Inr ())) 1 [''client''] =
     Some (''Client API version : 0.9.15'' @ [CHR 0x0A] @
           ''Server API version : 0.9.15'' @ [CHR 0x0A] @
           ''Loading world: Town01'' @ [CHR 0x0A] @
           ''Spawned vehicle.audi.tt'' @ [CHR 0x0A] @
           ''Actors destroyed.'' @ [CHR 0x0A], 0) \<and>
   main (scripted_library (Inl (TimeoutException ''time-out''))) 1 [''client''] =
     Some ([CHR 0x0A] @ ''time-out'' @ [CHR 0x0A], 1) \<and>
   main (scripted_library (Inr ())) 2 [''client'', ''localhost''] =
     Some ([CHR 0x0A] @ ''Exception: (argc == 1u) || (argc == 3u)'' @ [CHR 0x0A], 2)"
  using main_exit_code [of "scripted_library (Inr ())" 1 "[''client'']"]
        main_exit_code [of "scripted_library (Inl (TimeoutException ''time-out''))" 1 "[''client'']"]
        main_exit_code [of "scripted_library (Inr ())" 2 "[''client'', ''localhost'']"]
        main_body_scripted_success main_body_scripted_timeout main_body_scripted_arguments
  by simp

subsection \<open>Arguments\<close>

text \<open>
  C4. \<open>ParseArguments\<close> throws the runtime error of its count check exactly when
  \<open>argc\<close> is neither 1 nor 3: every other count is rejected by that error, and with
  1 or 3 the count check does not throw (an exception thrown then is not that runtime
  error).
\<close>

theorem ParseArguments_count_check:
  "(\<exists>m. ParseArguments argc argv = Throws (RuntimeError m)) = (argc \<noteq> 1 \<and> argc \<noteq> 3) \<and>
   (ParseArguments argc argv = Throws (RuntimeError ''(argc == 1u) || (argc == 3u)'')) =
     (argc \<noteq> 1 \<and> argc \<noteq> 3)"
  by (auto simp: ParseArguments_def stoi_def split: sum.splits option.splits if_splits)

theorem ParseArguments_count_check_witness:
  "ParseArguments 2 [''client'', ''localhost''] =
     Throws (RuntimeError ''(argc == 1u) || (argc == 3u)'') \<and>
   ParseArguments 0 [] = Throws (RuntimeError ''(argc == 1u) || (argc == 3u)'') \<and>
   ParseArguments 1 [''client''] \<noteq> Throws (RuntimeError ''(argc == 1u) || (argc == 3u)'') \<and>
   ParseArguments 3 [''client'', ''localhost'', ''port''] \<noteq>
     Throws (RuntimeError ''(argc == 1u) || (argc == 3u)'')"
  using ParseArguments_count_check [of 2 "[''client'', ''localhost'']"]
        ParseArguments_count_check [of 0 "[]"]
        ParseArguments_count_check [of 1 "[''client'']"]
        ParseArguments_count_check [of 3 "[''client'', ''localhost'', ''port'']"]
  by simp

text \<open>
  C5. With no positional argument (\<open>argc = 1\<close>) \<open>ParseArguments\<close> returns the
  default pair, host \<^verbatim>\<open>localhost\<close> and port 2000; with two (\<open>argc = 3\<close>) it returns
  \<open>argv ! 1\<close> as the host and, as the port, the number \<^verbatim>\<open>std::stoi\<close> parses from
  \<open>argv ! 2\<close>.
\<close>

theorem ParseArguments_result:
  "ParseArguments 1 argv = Returns (''localhost'', 2000) \<and>
   (\<forall>v. 2 < length argv \<and> stoi (argv ! 2) = Inr v \<longrightarrow>
      ParseArguments 3 argv = Returns (argv ! 1, word_of_int v))"
  by (simp add: ParseArguments_def)

theorem ParseArguments_result_witness:
  "ParseArguments 1 [''client''] = Returns (''localhost'', 2000) \<and>
   ParseArguments 3 [''client'', ''10.0.0.5'', ''2001''] = Returns (''10.0.0.5'', 2001)"
proof -
  have "stoi ''2001'' = Inr 2001"
    by (simp add: stoi_defs)
  then show ?thesis
    using ParseArguments_result [of "[''client'']"]
          ParseArguments_result [of "[''client'', ''10.0.0.5'', ''2001'']"]
    by simp
qed

text \<open>
  C10. With two positional arguments the port is \<open>argv ! 2\<close> parsed as a decimal
  \<^verbatim>\<open>int\<close> and narrowed to 16 bits without sign: the port is the parsed value modulo
  \<open>2 ^ 16\<close>. A second argument with no number to parse, or with a number outside the
  range of \<^verbatim>\<open>int\<close>, gives an exception and no port.
\<close>

theorem ParseArguments_port:
  assumes "2 < length argv"
  shows "(strtol_value (argv ! 2) = None \<longrightarrow>
            ParseArguments 3 argv = Throws (InvalidArgument ''stoi'')) \<and>
         (\<forall>v. strtol_value (argv ! 2) = Some v \<and> (v < INT_MIN \<or> INT_MAX < v) \<longrightarrow>
            ParseArguments 3 argv = Throws (OutOfRange ''stoi'')) \<and>
         (\<forall>v. strtol_value (argv ! 2) = Some v \<and> INT_MIN \<le> v \<and> v \<le> INT_MAX \<longrightarrow>
            ParseArguments 3 argv = Returns (argv ! 1, word_of_int v) \<and>
            uint (word_of_int v :: 16 word) = v mod 2 ^ 16)"
  using assms
  by (auto simp: ParseArguments_def stoi_def uint_word_of_int take_bit_eq_mod)

theorem ParseArguments_port_witness:
  "ParseArguments 3 [''client'', ''localhost'', ''70000''] = Returns (''localhost'', 4464) \<and>
   uint (word_of_int 70000 :: 16 word) = 70000 mod 2 ^ 16 \<and>
   ParseArguments 3 [''client'', ''localhost'', ''port''] = Throws (InvalidArgument ''stoi'') \<and>
   ParseArguments 3 [''client'', ''localhost'', ''99999999999''] = Throws (OutOfRange ''stoi'')"
proof -
  have a: "strtol_value ''70000'' = Some 70000"
    by (simp add: stoi_defs)
  have b: "strtol_value ''port'' = None"
    by (simp add: stoi_defs)
  have c: "strtol_value ''99999999999'' = Some 99999999999"
    by (simp add: stoi_defs)
  show ?thesis
    using ParseArguments_port [of "[''client'', ''localhost'', ''70000'']"]
          ParseArguments_port [of "[''client'', ''localhost'', ''port'']"]
          ParseArguments_port [of "[''client'', ''localhost'', ''99999999999'']"]
          a b c
    by (simp add: INT_MIN_def INT_MAX_def)
qed

subsection \<open>Random choice\<close>

text \<open>
  C8. \<open>RandomChoice\<close> throws (a runtime error) exactly when the range is empty. For a
  range that is not empty and every generator state, the index drawn from the
  distribution over 0 to size - 1 is inside the range, so the read is never out of
  bounds and the result is an element of the range. The distribution is any that keeps
  the standard's promise (\<open>distribution_contract\<close>).
\<close>

theorem RandomChoice_in_range:
  assumes "distribution_contract draw"
  shows "((\<exists>e. fst (RandomChoice draw xs g) = Throws e) \<longleftrightarrow> xs = []) \<and>
         (xs = [] \<longrightarrow>
            RandomChoice draw xs g = (Throws (RuntimeError ''range.size() > 0u''), g)) \<and>
         (xs \<noteq> [] \<longrightarrow>
            fst (draw 0 (length xs - 1) g) < length xs \<and>
            RandomChoice draw xs g =
              (Returns (xs ! fst (draw 0 (length xs - 1) g)), snd (draw 0 (length xs - 1) g)) \<and>
            (\<exists>v \<in> set xs. fst (RandomChoice draw xs g) = Returns v))"
proof (cases "xs = []")
  case True
  then show ?thesis
    by (simp add: RandomChoice_def)
next
  case False
  have "fst (draw 0 (length xs - 1) g) \<le> length xs - 1"
    using assms by (simp add: distribution_contract_def)
  with False have "fst (draw 0 (length xs - 1) g) < length xs"
    by (cases xs) auto
  with False show ?thesis
    by (auto simp: RandomChoice_def split: prod.splits)
qed

theorem RandomChoice_in_range_witness:
  "distribution_contract example_distribution \<and>
   RandomChoice example_distribution [10, 20, 30 :: nat] 7 = (Returns 20, 8) \<and>
   RandomChoice example_distribution ([] :: nat list) 7 =
     (Throws (RuntimeError ''range.size() > 0u''), 7)"
  using RandomChoice_in_range [OF example_distribution_contract, of "[10, 20, 30 :: nat]" 7]
        RandomChoice_in_range [OF example_distribution_contract, of "[] :: nat list" 7]
        example_distribution_contract
  by (simp add: example_distribution_def)

section \<open>Properties of the OpenDRIVE file lookup\<close>

subsection \<open>The editor prefix\<close>

lemma length_PIEPrefix: "length PIEPrefix = 9"
  by (simp add: PIEPrefix_def)

lemma ToLower_PIEPrefix: "map ToLower PIEPrefix = ''uedpie_0_''"
  by (simp add: PIEPrefix_def ToLower_def)

lemma StartsWith_PIEPrefix:
  "StartsWith name PIEPrefix \<longleftrightarrow>
     9 \<le> length name \<and> map ToLower (take 9 name) = ''uedpie_0_''"
  by (auto simp: StartsWith_def length_PIEPrefix ToLower_PIEPrefix) (simp add: PIEPrefix_def)

lemma prefix_StartsWith_PIEPrefix: "prefix PIEPrefix name \<Longrightarrow> StartsWith name PIEPrefix"
  by (auto simp: prefix_def StartsWith_def) (simp add: PIEPrefix_def)

lemmas lookup_defs =
  FindPathToXODRFile_def DefaultFilePath_def CorrectedMapName_def RemoveFromStart_def
  StartsWith_def PIEPrefix_def ToLower_def example_engine_def

text \<open>
  C6, as the specification has it, fails: in an editor build a map name that does not
  start with \<^verbatim>\<open>UEDPIE_0_\<close> can still be shortened. \<^verbatim>\<open>uedpie_0_Town01\<close> does
  not start with the prefix, yet the file looked up is \<^verbatim>\<open>Town01.xodr\<close>.
\<close>

theorem CorrectedMapName_case_counterexample:
  "\<not> prefix ''UEDPIE_0_'' ''uedpie_0_Town01'' \<and>
   CorrectedMapName True ''uedpie_0_Town01'' \<noteq> ''uedpie_0_Town01'' \<and>
   FindPathToXODRFile True
     (example_engine [''/Content/Carla/Maps/OpenDrive/Town01.xodr''] (\<lambda>dir name. []) (\<lambda>path. None))
     ''uedpie_0_Town01'' = ''/Content/Carla/Maps/OpenDrive/Town01.xodr''"
  by (simp add: lookup_defs)

text \<open>
  C6, amended. In an editor build the lookup works on the corrected map name: the map
  name without its first nine characters when these are \<^verbatim>\<open>UEDPIE_0_\<close> up to the case
  of letters (\<^verbatim>\<open>RemoveFromStart\<close> compares with the engine's default, ignoring
  case), and the map name itself otherwise; \<^verbatim>\<open>.xodr\<close> is appended to the corrected
  name and the path resolved from it. A name that starts with \<^verbatim>\<open>UEDPIE_0_\<close> as
  written loses it. Outside an editor build the name is never changed.
\<close>

theorem CorrectedMapName_ignoring_case:
  "FindPathToXODRFile True eng name = FindPathToXODRFile False eng (CorrectedMapName True name) \<and>
   CorrectedMapName False name = name \<and>
   (StartsWith name PIEPrefix \<longrightarrow> CorrectedMapName True name = drop 9 name) \<and>
   (\<not> StartsWith name PIEPrefix \<longrightarrow> CorrectedMapName True name = name) \<and>
   (StartsWith name PIEPrefix \<longleftrightarrow>
      9 \<le> length name \<and> map ToLower (take 9 name) = ''uedpie_0_'') \<and>
   (prefix PIEPrefix name \<longrightarrow> CorrectedMapName True name = drop 9 name)"
proof -
  have "FindPathToXODRFile True eng name =
        FindPathToXODRFile False eng (CorrectedMapName True name)"
    by (simp add: FindPathToXODRFile_def CorrectedMapName_def)
  moreover have "CorrectedMapName False name = name"
    by (simp add: CorrectedMapName_def)
  moreover have starts: "StartsWith name PIEPrefix \<longrightarrow> CorrectedMapName True name = drop 9 name"
    by (simp add: CorrectedMapName_def RemoveFromStart_def length_PIEPrefix)
  moreover have "\<not> StartsWith name PIEPrefix \<longrightarrow> CorrectedMapName True name = name"
    by (simp add: CorrectedMapName_def RemoveFromStart_def)
  moreover have "prefix PIEPrefix name \<longrightarrow> CorrectedMapName True name = drop 9 name"
    using starts prefix_StartsWith_PIEPrefix [of name] by blast
  ultimately show ?thesis
    using StartsWith_PIEPrefix [of name] by blast
qed

theorem CorrectedMapName_ignoring_case_witness:
  "CorrectedMapName True ''UEDPIE_0_Town01'' = ''Town01'' \<and>
   CorrectedMapName True ''UedPie_0_Town01'' = ''Town01'' \<and>
   CorrectedMapName True ''Town01'' = ''Town01'' \<and>
   CorrectedMapName False ''UEDPIE_0_Town01'' = ''UEDPIE_0_Town01''"
proof -
  let ?eng = "example_engine [] (\<lambda>dir name. []) (\<lambda>path. None)"
  have "prefix PIEPrefix ''UEDPIE_0_Town01''"
    by (simp add: PIEPrefix_def)
  with CorrectedMapName_ignoring_case [of ?eng "''UEDPIE_0_Town01''"]
  have a: "CorrectedMapName True ''UEDPIE_0_Town01'' = drop 9 ''UEDPIE_0_Town01''"
    by blast
  have "StartsWith ''UedPie_0_Town01'' PIEPrefix"
    by (simp add: StartsWith_def PIEPrefix_def ToLower_def)
  with CorrectedMapName_ignoring_case [of ?eng "''UedPie_0_Town01''"]
  have b: "CorrectedMapName True ''UedPie_0_Town01'' = drop 9 ''UedPie_0_Town01''"
    by blast
  have "\<not> StartsWith ''Town01'' PIEPrefix"
    by (simp add: StartsWith_def PIEPrefix_def)
  with CorrectedMapName_ignoring_case [of ?eng "''Town01''"]
  have c: "CorrectedMapName True ''Town01'' = ''Town01''"
    by blast
  from CorrectedMapName_ignoring_case [of ?eng "''UEDPIE_0_Town01''"]
  have d: "CorrectedMapName False ''UEDPIE_0_Town01'' = ''UEDPIE_0_Town01''"
    by blast
  from a b c d show ?thesis
    by simp
qed

subsection \<open>The conventional path and the recursive search\<close>

text \<open>
  C2. \<open>FindPathToXODRFile\<close> prefers the conventional path. For every map name, when
  the file \<^verbatim>\<open><ProjectContentDir>/Carla/Maps/OpenDrive/<name>.xodr\<close> exists (\<open>name\<close> the
  map name after the correction of the editor build, the map name itself in every other
  build), that path is returned, and the recursive search has no part in the result:
  whatever the search would find, the result is the same.
\<close>

theorem FindPathToXODRFile_prefers_default:
  assumes "FileExists eng
             (ProjectContentDir eng @ ''Carla/Maps/OpenDrive/'' @
              CorrectedMapName ed name @ ''.xodr'')"
  shows "FindPathToXODRFile ed eng name =
           ProjectContentDir eng @ ''Carla/Maps/OpenDrive/'' @
           CorrectedMapName ed name @ ''.xodr'' \<and>
         (\<forall>search. FindPathToXODRFile ed (eng\<lparr>FindFilesRecursive := search\<rparr>) name =
            FindPathToXODRFile ed eng name)"
  using assms by (simp add: FindPathToXODRFile_def DefaultFilePath_def)

theorem FindPathToXODRFile_prefers_default_witness:
  "FindPathToXODRFile False
     (example_engine [''/Content/Carla/Maps/OpenDrive/Town01.xodr'']
        (\<lambda>dir name. [''/Content/Custom/Town01.xodr'']) (\<lambda>path. None))
     ''Town01'' = ''/Content/Carla/Maps/OpenDrive/Town01.xodr'' \<and>
   FindPathToXODRFile True
     (example_engine [''/Content/Carla/Maps/OpenDrive/Town01.xodr'']
        (\<lambda>dir name. [''/Content/Custom/Town01.xodr'']) (\<lambda>path. None))
     ''UEDPIE_0_Town01'' = ''/Content/Carla/Maps/OpenDrive/Town01.xodr''"
  using FindPathToXODRFile_prefers_default
          [of "example_engine [''/Content/Carla/Maps/OpenDrive/Town01.xodr'']
                 (\<lambda>dir name. [''/Content/Custom/Town01.xodr'']) (\<lambda>path. None)"
              False "''Town01''", THEN conjunct1]
        FindPathToXODRFile_prefers_default
          [of "example_engine [''/Content/Carla/Maps/OpenDrive/Town01.xodr'']
                 (\<lambda>dir name. [''/Content/Custom/Town01.xodr'']) (\<lambda>path. None)"
              True "''UEDPIE_0_Town01''", THEN conjunct1]
  by (simp add: CorrectedMapName_def RemoveFromStart_def StartsWith_def PIEPrefix_def
      ToLower_def example_engine_def)

text \<open>
  C3. When the conventional path does not exist, \<open>FindPathToXODRFile\<close> searches the
  content directory recursively for the file name \<^verbatim>\<open><name>.xodr\<close> (files only) and
  returns the first file found; when the search finds none it returns the empty string.
\<close>

theorem FindPathToXODRFile_recursive_search:
  assumes "\<not> FileExists eng
               (ProjectContentDir eng @ ''Carla/Maps/OpenDrive/'' @
                CorrectedMapName ed name @ ''.xodr'')"
  shows "FindPathToXODRFile ed eng name =
           (case FindFilesRecursive eng [] (ProjectContentDir eng)
                   (CorrectedMapName ed name @ ''.xodr'') True False False of
              [] \<Rightarrow> []
            | first # others \<Rightarrow> first)"
  using assms
  by (simp add: FindPathToXODRFile_def DefaultFilePath_def Let_def split: list.splits)

theorem FindPathToXODRFile_recursive_search_witness:
  "FindPathToXODRFile False
     (example_engine []
        (\<lambda>dir name. if dir = ''/Content/'' \<and> name = ''Town01.xodr''
                     then [''/Content/Custom/Town01.xodr'', ''/Content/Old/Town01.xodr''] else [])
        (\<lambda>path. None))
     ''Town01'' = ''/Content/Custom/Town01.xodr'' \<and>
   FindPathToXODRFile False (example_engine [] (\<lambda>dir name. []) (\<lambda>path. None)) ''Town01'' = []"
  using FindPathToXODRFile_recursive_search
          [of "example_engine []
                 (\<lambda>dir name. if dir = ''/Content/'' \<and> name = ''Town01.xodr''
                     then [''/Content/Custom/Town01.xodr'', ''/Content/Old/Town01.xodr''] else [])
                 (\<lambda>path. None)"
              False "''Town01''"]
        FindPathToXODRFile_recursive_search
          [of "example_engine [] (\<lambda>dir name. []) (\<lambda>path. None)" False "''Town01''"]
  by (simp add: CorrectedMapName_def example_engine_def)

subsection \<open>Failures and the log\<close>

text \<open>
  \<open>LoadXODR\<close> reports both failures: with no path found, and with a file that does
  not load, it logs one line of verbosity \<open>Error\<close>; the content it returns is empty when
  the failed load left the result untouched.
\<close>

lemma LoadXODR_failure_logged:
  "(FindPathToXODRFile ed eng name = [] \<longrightarrow>
      LoadXODR ed eng name =
        ([], [(Error, ''Failed to find OpenDrive file for map '' @ quoted name)])) \<and>
   (FindPathToXODRFile ed eng name \<noteq> [] \<and>
    LoadFileToString eng [] (FindPathToXODRFile ed eng name) = (False, []) \<longrightarrow>
      LoadXODR ed eng name =
        ([], [(Error, ''Failed to load OpenDrive file '' @
                 quoted (FindPathToXODRFile ed eng name))]))"
  by (simp add: LoadXODR_def Let_def)

text \<open>
  C7 holds of \<open>LoadXODR\<close> and fails on \<open>GetXODRByPath\<close>: with a file that is found
  and does not load, \<open>GetXODRByPath\<close> returns the empty string and logs nothing, where
  \<open>LoadXODR\<close> on the same engine logs the failure.
\<close>

theorem GetXODRByPath_load_failure_silent:
  "GetXODRByPath False
     (example_engine [] (\<lambda>dir name. [''/Maps/Town01/OpenDrive/Town01.xodr'']) (\<lambda>path. None))
     ''/Maps/Town01/OpenDrive/Town01.xodr'' ''Town01'' = ([], []) \<and>
   LoadXODR False
     (example_engine [] (\<lambda>dir name. [''/Maps/Town01/OpenDrive/Town01.xodr'']) (\<lambda>path. None))
     ''Town01'' =
     ([], [(Error, ''Failed to load OpenDrive file '' @
              quoted ''/Maps/Town01/OpenDrive/Town01.xodr'')])"
  by (simp add: GetXODRByPath_def LoadXODR_def FindPathToXODRFile_def DefaultFilePath_def
      example_engine_def Let_def)

subsection \<open>LoadOpenDriveMap\<close>

text \<open>
  C9. \<open>LoadOpenDriveMap\<close> returns the null pointer exactly when \<open>LoadXODR\<close> returns
  empty content for the map name; otherwise it returns the new map object on which
  \<open>Load\<close> was called with that content, so a result that is not null is a map loaded
  from content that is not empty. The lines logged are those of \<open>LoadXODR\<close>.
\<close>

theorem LoadOpenDriveMap_null_iff_empty:
  "(fst (LoadOpenDriveMap ed eng new load name) = None \<longleftrightarrow> fst (LoadXODR ed eng name) = []) \<and>
   (fst (LoadXODR ed eng name) \<noteq> [] \<longrightarrow>
      fst (LoadOpenDriveMap ed eng new load name) =
        Some (load new (fst (LoadXODR ed eng name)))) \<and>
   (\<forall>m. fst (LoadOpenDriveMap ed eng new load name) = Some m \<longrightarrow>
      m = load new (fst (LoadXODR ed eng name)) \<and> fst (LoadXODR ed eng name) \<noteq> []) \<and>
   snd (LoadOpenDriveMap ed eng new load name) = snd (LoadXODR ed eng name)"
  by (auto simp: LoadOpenDriveMap_def split: prod.splits if_splits)

theorem LoadOpenDriveMap_null_iff_empty_witness:
  "fst (LoadOpenDriveMap False
          (example_engine [''/Content/Carla/Maps/OpenDrive/Town01.xodr''] (\<lambda>dir name. [])
             (\<lambda>path. Some ''<OpenDRIVE/>''))
          ''new map: '' (\<lambda>m content. m @ content) ''Town01'') =
     Some ''new map: <OpenDRIVE/>'' \<and>
   fst (LoadOpenDriveMap False
          (example_engine [] (\<lambda>dir name. []) (\<lambda>path. None))
          ''new map: '' (\<lambda>m content. m @ content) ''Town01'') = None"
proof -
  have a: "fst (LoadXODR False
             (example_engine [''/Content/Carla/Maps/OpenDrive/Town01.xodr''] (\<lambda>dir name. [])
                (\<lambda>path. Some ''<OpenDRIVE/>'')) ''Town01'') = ''<OpenDRIVE/>''"
    by (simp add: LoadXODR_def FindPathToXODRFile_def DefaultFilePath_def CorrectedMapName_def
        example_engine_def Let_def)
  have b: "fst (LoadXODR False (example_engine [] (\<lambda>dir name. []) (\<lambda>path. None)) ''Town01'') = []"
    by (simp add: LoadXODR_def FindPathToXODRFile_def DefaultFilePath_def CorrectedMapName_def
        example_engine_def Let_def)
  have "fst (LoadOpenDriveMap False
               (example_engine [''/Content/Carla/Maps/OpenDrive/Town01.xodr''] (\<lambda>dir name. [])
                  (\<lambda>path. Some ''<OpenDRIVE/>''))
               ''new map: '' (\<lambda>m content. m @ content) ''Town01'') =
        Some (''new map: '' @ ''<OpenDRIVE/>'')"
    using LoadOpenDriveMap_null_iff_empty
            [of False "example_engine [''/Content/Carla/Maps/OpenDrive/Town01.xodr'']
                 (\<lambda>dir name. []) (\<lambda>path. Some ''<OpenDRIVE/>'')"
                "''new map: ''" "\<lambda>m content. m @ content" "''Town01''",
             THEN conjunct2, THEN conjunct1]
    by (simp only: a) simp
  moreover have "fst (LoadOpenDriveMap False
               (example_engine [] (\<lambda>dir name. []) (\<lambda>path. None))
               ''new map: '' (\<lambda>m content. m @ content) ''Town01'') = None"
    using LoadOpenDriveMap_null_iff_empty
            [of False "example_engine [] (\<lambda>dir name. []) (\<lambda>path. None)"
                "''new map: ''" "\<lambda>m content. m @ content" "''Town01''", THEN conjunct1]
    by (simp only: b)
  ultimately show ?thesis
    by simp
qed

end
